theory Spec2Isabelle
  imports Complex_Main "HOL-Library.Sublist"
begin

section \<open>JavaScript values used by the matching and extraction code\<close>

text \<open>
  Strings are lists of code units below 256 (ASCII and Latin-1).  A finite number is the
  rational it denotes; an amount held in a field is an IEEE double, that is a rational
  \<open>x\<close> with \<open>isDouble x\<close>.  The subtraction that yields the amount difference and the
  conversion done by \<open>parseFloat\<close> round to the nearest double (\<open>toDouble\<close>); the point
  sums of the scoring are sums of small integers and of one quotient and are read exactly.
  A nullable column is an \<open>option\<close>; JavaScript's truthiness (\<open>!x\<close>, \<open>x || y\<close>,
  \<open>x && y\<close>) is written out for each type.
\<close>

definition truthy_num :: "rat option \<Rightarrow> bool" where
  "truthy_num v = (case v of None \<Rightarrow> False | Some a \<Rightarrow> a \<noteq> 0)"

definition truthy_str :: "string option \<Rightarrow> bool" where
  "truthy_str v = (case v of None \<Rightarrow> False | Some s \<Rightarrow> s \<noteq> [])"

text \<open>\<open>null\<close> in an arithmetic position converts to 0.\<close>

definition to_number :: "rat option \<Rightarrow> rat" where
  "to_number v = (case v of None \<Rightarrow> 0 | Some a \<Rightarrow> a)"

text \<open>
  IEEE 754 binary64, round to nearest, ties to even.  A positive rational \<open>a\<close> lies in
  \<open>[2^k, 2^(k+1))\<close> for \<open>k = floorLog2 a\<close>; its double is the multiple of \<open>2^e\<close> nearest to it,
  where \<open>e = k - 52\<close> (53 significant bits), and \<open>e = -1074\<close> in the subnormal range.  A
  result of \<open>2^1024\<close> or more is an infinity: \<open>None\<close>.
\<close>

function bitLength :: "int \<Rightarrow> int" where
  "bitLength n = (if n \<le> 0 then 0 else 1 + bitLength (n div 2))"
  by pat_completeness auto
termination
  by (relation "measure nat") auto

declare bitLength.simps [simp del]

definition floorLog2 :: "rat \<Rightarrow> int" where
  "floorLog2 x = (if 1 \<le> x then bitLength \<lfloor>x\<rfloor> - 1 else - bitLength (\<lceil>1 / x\<rceil> - 1))"

definition pow2 :: "int \<Rightarrow> rat" where
  "pow2 k = (if 0 \<le> k then of_int (2 ^ nat k) else 1 / of_int (2 ^ nat (- k)))"

definition roundHalfEven :: "rat \<Rightarrow> int" where
  "roundHalfEven m =
     (let n = \<lfloor>m\<rfloor>; f = m - of_int n
      in if f < 1 / 2 then n else if 1 / 2 < f then n + 1 else if even n then n else n + 1)"

definition toDouble :: "rat \<Rightarrow> rat option" where
  "toDouble x =
     (if x = 0 then Some 0
      else (let a = \<bar>x\<bar>;
                e = max (floorLog2 a - 52) (- 1074);
                y = of_int (roundHalfEven (a / pow2 e)) * pow2 e
            in if 1024 \<le> floorLog2 y then None else Some (sgn x * y)))"


text \<open>A number that may be infinite: the result of an operation on doubles.\<close>

datatype jsnum = Finite rat | Infinity

text \<open>\<open>Math.round\<close>: the nearest integer, a half rounding up.\<close>

definition math_round :: "rat \<Rightarrow> int" where
  "math_round x = \<lfloor>x + 1 / 2\<rfloor>"

text \<open>White space (\<open>\s\<close>, \<open>trim\<close>) among the code units below 256.\<close>

definition spaceChars :: string where
  "spaceChars = [CHR 0x09, CHR 0x0A, CHR 0x0B, CHR 0x0C, CHR 0x0D, CHR 0x20, CHR 0xA0]"

definition isSpace :: "char \<Rightarrow> bool" where
  "isSpace c = (c \<in> set spaceChars)"

definition isDigit :: "char \<Rightarrow> bool" where
  "isDigit c = (c \<in> set ''0123456789'')"

text \<open>
  Case conversion of one code unit below 256: the ASCII letters and the Latin-1 letters
  0xC0 to 0xDE (0xD7, the multiplication sign, has no case).
\<close>

definition upperChars :: string where
  "upperChars = ''ABCDEFGHIJKLMNOPQRSTUVWXYZ'' @
     [CHR 0xC0, CHR 0xC1, CHR 0xC2, CHR 0xC3, CHR 0xC4, CHR 0xC5, CHR 0xC6, CHR 0xC7,
      CHR 0xC8, CHR 0xC9, CHR 0xCA, CHR 0xCB, CHR 0xCC, CHR 0xCD, CHR 0xCE, CHR 0xCF,
      CHR 0xD0, CHR 0xD1, CHR 0xD2, CHR 0xD3, CHR 0xD4, CHR 0xD5, CHR 0xD6, CHR 0xD8,
      CHR 0xD9, CHR 0xDA, CHR 0xDB, CHR 0xDC, CHR 0xDD, CHR 0xDE]"

definition lowerChars :: string where
  "lowerChars = ''abcdefghijklmnopqrstuvwxyz'' @
     [CHR 0xE0, CHR 0xE1, CHR 0xE2, CHR 0xE3, CHR 0xE4, CHR 0xE5, CHR 0xE6, CHR 0xE7,
      CHR 0xE8, CHR 0xE9, CHR 0xEA, CHR 0xEB, CHR 0xEC, CHR 0xED, CHR 0xEE, CHR 0xEF,
      CHR 0xF0, CHR 0xF1, CHR 0xF2, CHR 0xF3, CHR 0xF4, CHR 0xF5, CHR 0xF6, CHR 0xF8,
      CHR 0xF9, CHR 0xFA, CHR 0xFB, CHR 0xFC, CHR 0xFD, CHR 0xFE]"

definition toLowerChar :: "char \<Rightarrow> char" where
  "toLowerChar c = (case map_of (zip upperChars lowerChars) c of Some l \<Rightarrow> l | None \<Rightarrow> c)"

text \<open>The upper-case partner of an ASCII letter, as the \<open>i\<close> flag pairs them.\<close>

definition toUpperAscii :: "char \<Rightarrow> char" where
  "toUpperAscii c =
     (case map_of (zip (take 26 lowerChars) (take 26 upperChars)) c of
        Some u \<Rightarrow> u | None \<Rightarrow> c)"

definition toLowerCase :: "string \<Rightarrow> string" where
  "toLowerCase s = map toLowerChar s"

definition trim :: "string \<Rightarrow> string" where
  "trim s = rev (dropWhile isSpace (rev (dropWhile isSpace s)))"

text \<open>\<open>s.includes(w)\<close>: \<open>w\<close> occurs in \<open>s\<close> as a contiguous substring.\<close>

fun str_includes :: "string \<Rightarrow> string \<Rightarrow> bool" where
  "str_includes [] w = (w = [])"
| "str_includes (c # cs) w = (take (length w) (c # cs) = w \<or> str_includes cs w)"

text \<open>\<open>s.split('\n')\<close>: the pieces between line feeds; the empty string gives one empty piece.\<close>

fun split_on :: "char \<Rightarrow> string \<Rightarrow> string \<Rightarrow> string list" where
  "split_on sep piece [] = [piece]"
| "split_on sep piece (c # cs) =
     (if c = sep then piece # split_on sep [] cs else split_on sep (piece @ [c]) cs)"

definition split_lines :: "string \<Rightarrow> string list" where
  "split_lines s = split_on (CHR 0x0A) [] s"

fun show_nat :: "nat \<Rightarrow> string" where
  "show_nat n =
     (if n < 10 then [char_of (48 + n)] else show_nat (n div 10) @ [char_of (48 + n mod 10)])"

declare show_nat.simps [simp del]

text \<open>\<open>s.padStart(2, '0')\<close>.\<close>

definition padStart2 :: "string \<Rightarrow> string" where
  "padStart2 s = replicate (2 - length s) CHR ''0'' @ s"

section \<open>Regular expressions\<close>

text \<open>
  The patterns of the source use literals, character classes, \<open>^\<close> and \<open>$\<close> (never
  with the \<open>m\<close> flag), sequence, alternation and greedy repetition; no back reference and
  no look-around.  A pattern is matched by backtracking: \<open>rmatch r (b, s)\<close> lists, in the
  order a backtracking matcher tries them, what is left of \<open>s\<close> after each way \<open>r\<close> can
  match a prefix of it; \<open>b\<close> tells whether \<open>s\<close> starts at index 0 of the subject.  The
  head of the list is the match JavaScript reports.  An iteration of \<open>*\<close> that consumes
  nothing is rejected, as in ECMAScript.
\<close>

datatype regex =
    Eps
  | Sym "char list"
  | NSym "char list"
  | Bol
  | Eol
  | Seq regex regex
  | Alt regex regex
  | Star regex

fun rmatch :: "regex \<Rightarrow> bool \<times> string \<Rightarrow> (bool \<times> string) list" where
  "rmatch Eps st = [st]"
| "rmatch (Sym cs) st =
     (case snd st of [] \<Rightarrow> [] | c # s' \<Rightarrow> if c \<in> set cs then [(False, s')] else [])"
| "rmatch (NSym cs) st =
     (case snd st of [] \<Rightarrow> [] | c # s' \<Rightarrow> if c \<in> set cs then [] else [(False, s')])"
| "rmatch Bol st = (if fst st then [st] else [])"
| "rmatch Eol st = (if snd st = [] then [st] else [])"
| "rmatch (Seq r1 r2) st = concat (map (rmatch r2) (rmatch r1 st))"
| "rmatch (Alt r1 r2) st = rmatch r1 st @ rmatch r2 st"
| "rmatch (Star r) st =
     concat (map (\<lambda>st'. if length (snd st') < length (snd st) then rmatch (Star r) st' else [])
                 (rmatch r st)) @ [st]"

definition Plus :: "regex \<Rightarrow> regex" where
  "Plus r = Seq r (Star r)"

definition Opt :: "regex \<Rightarrow> regex" where
  "Opt r = Alt r Eps"

fun seqs :: "regex list \<Rightarrow> regex" where
  "seqs [] = Eps"
| "seqs [r] = r"
| "seqs (r # rs) = Seq r (seqs rs)"

fun alts :: "regex list \<Rightarrow> regex" where
  "alts [] = NSym []"
| "alts [r] = r"
| "alts (r # rs) = Alt r (alts rs)"

text \<open>A literal, and a literal under the \<open>i\<close> flag (written in lower case).\<close>

definition lit :: "string \<Rightarrow> regex" where
  "lit s = seqs (map (\<lambda>c. Sym [c]) s)"

definition ci :: "string \<Rightarrow> regex" where
  "ci s = seqs (map (\<lambda>c. Sym [c, toUpperAscii c]) s)"

definition ws :: regex where
  "ws = Sym spaceChars"

definition digit :: regex where
  "digit = Sym ''0123456789''"

text \<open>
  \<open>exec r s\<close> is \<open>r.exec(s)\<close> for a pattern without the \<open>g\<close> flag: the leftmost match,
  as (text before, matched text, text after).
\<close>

fun exec_from :: "regex \<Rightarrow> bool \<Rightarrow> string \<Rightarrow> string \<Rightarrow> (string \<times> string \<times> string) option" where
  "exec_from r b pre s =
     (case rmatch r (b, s) of
        st # _ \<Rightarrow> Some (pre, take (length s - length (snd st)) s, snd st)
      | [] \<Rightarrow> (case s of [] \<Rightarrow> None | c # cs \<Rightarrow> exec_from r False (pre @ [c]) cs))"

definition exec :: "regex \<Rightarrow> string \<Rightarrow> (string \<times> string \<times> string) option" where
  "exec r s = exec_from r True [] s"

definition test :: "regex \<Rightarrow> string \<Rightarrow> bool" where
  "test r s = (exec r s \<noteq> None)"

text \<open>\<open>s.match(r)\<close> without the \<open>g\<close> flag, reduced to the matched text.\<close>

definition match_first :: "regex \<Rightarrow> string \<Rightarrow> string option" where
  "match_first r s = (case exec r s of None \<Rightarrow> None | Some (pre, m, post) \<Rightarrow> Some m)"

text \<open>
  \<open>s.match(r)\<close> with the \<open>g\<close> flag: every match from left to right, the search resuming
  where the last match ended, one code unit further after an empty match.  The empty
  list stands for \<open>null\<close>.
\<close>

function match_all_from :: "regex \<Rightarrow> bool \<Rightarrow> string \<Rightarrow> string list" where
  "match_all_from r b s =
     (case rmatch r (b, s) of
        st # _ \<Rightarrow>
          (if length (snd st) < length s
           then take (length s - length (snd st)) s # match_all_from r False (snd st)
           else (case s of [] \<Rightarrow> [[]] | c # cs \<Rightarrow> [] # match_all_from r False cs))
      | [] \<Rightarrow> (case s of [] \<Rightarrow> [] | c # cs \<Rightarrow> match_all_from r False cs))"
  by pat_completeness auto
termination
  by (relation "measure (\<lambda>(r, b, s). length s)") auto

definition match_all :: "regex \<Rightarrow> string \<Rightarrow> string list" where
  "match_all r s = match_all_from r True s"

text \<open>\<open>s.replace(r, '')\<close> without the \<open>g\<close> flag: the leftmost match is removed.\<close>

definition remove_first :: "regex \<Rightarrow> string \<Rightarrow> string" where
  "remove_first r s = (case exec r s of None \<Rightarrow> s | Some (pre, m, post) \<Rightarrow> pre @ post)"

text \<open>
  \<open>s.split(r)\<close> for a separator pattern that matches no empty string: the pieces between
  the matches, empty pieces included.
\<close>

function split_from :: "regex \<Rightarrow> bool \<Rightarrow> string \<Rightarrow> string \<Rightarrow> string list" where
  "split_from r b acc s =
     (case s of
        [] \<Rightarrow> [acc]
      | c # cs \<Rightarrow>
          (case rmatch r (b, s) of
             st # _ \<Rightarrow>
               (if length (snd st) < length s then acc # split_from r False [] (snd st)
                else split_from r False (acc @ [c]) cs)
           | [] \<Rightarrow> split_from r False (acc @ [c]) cs))"
  by pat_completeness auto
termination
  by (relation "measure (\<lambda>(r, b, acc, s). length s)") auto

definition split_re :: "regex \<Rightarrow> string \<Rightarrow> string list" where
  "split_re r s = split_from r True [] s"

declare exec_from.simps [simp del] match_all_from.simps [simp del] split_from.simps [simp del]

section \<open>The match-scoring engine (findPotentialMatches)\<close>

record transaction =
  transaction_id :: nat
  transaction_date :: "string option"
  description :: "string option"
  amount :: rat

record receipt =
  receipt_id :: nat
  extracted_amount :: "rat option"
  extracted_date :: "string option"
  extracted_merchant :: "string option"

record match_candidate =
  transaction :: transaction
  confidence :: int
  reasons :: "string list"
  amountDiff :: jsnum

text \<open>
  The date comparison is done by the moment library, which is not part of the repository.
  It enters as a parameter \<open>dd\<close>: \<open>dd d1 d2\<close> is \<open>None\<close> when one of the two moments is
  invalid, and otherwise the absolute difference in whole days of the receipt date \<open>d1\<close>
  (parsed with the four month/day/year formats) and the transaction date \<open>d2\<close>.
\<close>

type_synonym days_diff = "string \<Rightarrow> string \<Rightarrow> nat option"

text \<open>
  \<open>Math.abs(Math.abs(transaction.amount) - receipt.extracted_amount)\<close>: the two absolute
  values are exact, the subtraction of the two doubles is rounded to a double.
\<close>

definition amountDiffOf :: "receipt \<Rightarrow> transaction \<Rightarrow> jsnum" where
  "amountDiffOf r t =
     (case toDouble (\<bar>amount t\<bar> - to_number (extracted_amount r)) of
        None \<Rightarrow> Infinity
      | Some d \<Rightarrow> Finite \<bar>d\<bar>)"

definition amountScore :: "jsnum \<Rightarrow> rat \<times> string list" where
  "amountScore diff =
     (case diff of
        Infinity \<Rightarrow> (0, [])
      | Finite d \<Rightarrow>
          (if d = 0 then (60, [''Exact amount match''])
           else if d \<le> 1 then (40, [''Very close amount match''])
           else if d \<le> 5 then (20, [''Close amount match''])
           else if d \<le> 10 then (10, [''Approximate amount match''])
           else (0, [])))"

definition dateScore :: "days_diff \<Rightarrow> receipt \<Rightarrow> transaction \<Rightarrow> rat \<times> string list" where
  "dateScore dd r t =
     (if truthy_str (extracted_date r) \<and> truthy_str (transaction_date t) then
        (case dd (the (extracted_date r)) (the (transaction_date t)) of
           None \<Rightarrow> (0, [])
         | Some daysDiff \<Rightarrow>
             (if daysDiff = 0 then (25, [''Same date''])
              else if daysDiff \<le> 1 then (15, [''Within 1 day''])
              else if daysDiff \<le> 3 then (5, [''Within 3 days''])
              else (0, [])))
      else (0, []))"

definition eligibleWord :: "string \<Rightarrow> bool" where
  "eligibleWord w =
     (length w > 2 \<and> w \<notin> set [''llc'', ''inc'', ''corp'', ''ltd'', ''company'', ''co''])"

definition merchantWords :: "string \<Rightarrow> string list" where
  "merchantWords m = split_re (Plus ws) (toLowerCase m)"

definition merchantScore :: "receipt \<Rightarrow> transaction \<Rightarrow> rat \<times> string list" where
  "merchantScore r t =
     (if truthy_str (extracted_merchant r) \<and> truthy_str (description t) then
        (let words = merchantWords (the (extracted_merchant r));
             descriptionLower = toLowerCase (the (description t));
             matched = filter (\<lambda>w. eligibleWord w \<and> str_includes descriptionLower w) words;
             wordMatches = length matched;
             significantWordMatches = length (filter (\<lambda>w. length w \<ge> 5) matched)
         in if wordMatches > 0 then
              (let baseMatchPercent =
                     (of_nat wordMatches / of_nat (length (filter eligibleWord words))) * 15;
                   bonusPoints = of_nat significantWordMatches * 5;
                   totalMerchantPoints = min (baseMatchPercent + bonusPoints) 20
               in (totalMerchantPoints,
                   [''Merchant keywords match ('' @ show_nat wordMatches @ '' words, '' @
                    show_nat significantWordMatches @ '' significant)'']))
            else (0, []))
      else (0, []))"

text \<open>The body of the loop over the transactions.\<close>

definition scoreTransaction :: "days_diff \<Rightarrow> receipt \<Rightarrow> transaction \<Rightarrow> match_candidate option" where
  "scoreTransaction dd r t =
     (let d = amountDiffOf r t;
          a = amountScore d;
          dt = dateScore dd r t;
          m = merchantScore r t;
          conf = fst a + fst dt + fst m
      in if conf \<ge> 10 then
           Some \<lparr>transaction = t,
                 confidence = math_round conf,
                 reasons = snd a @ snd dt @ snd m,
                 amountDiff = d\<rparr>
         else None)"

text \<open>
  The quantities of the merchant comparison and the sum before rounding, named to state
  properties with.
\<close>

definition wordMatches :: "string \<Rightarrow> string \<Rightarrow> nat" where
  "wordMatches m d =
     length (filter (\<lambda>w. eligibleWord w \<and> str_includes (toLowerCase d) w) (merchantWords m))"

definition significantWordMatches :: "string \<Rightarrow> string \<Rightarrow> nat" where
  "significantWordMatches m d =
     length (filter (\<lambda>w. length w \<ge> 5)
       (filter (\<lambda>w. eligibleWord w \<and> str_includes (toLowerCase d) w) (merchantWords m)))"

definition eligibleCount :: "string \<Rightarrow> nat" where
  "eligibleCount m = length (filter eligibleWord (merchantWords m))"

definition rawConfidence :: "days_diff \<Rightarrow> receipt \<Rightarrow> transaction \<Rightarrow> rat" where
  "rawConfidence dd r t =
     fst (amountScore (amountDiffOf r t)) + fst (dateScore dd r t) + fst (merchantScore r t)"

text \<open>
  \<open>matches.sort((a, b) => b.confidence - a.confidence)\<close>.  Array.prototype.sort is a stable
  sort; it is modelled by insertion with the comparator of the source, an element going
  before the first one it does not have to follow.
\<close>

definition cmpConfidence :: "match_candidate \<Rightarrow> match_candidate \<Rightarrow> int" where
  "cmpConfidence a b = confidence b - confidence a"

fun insert_cmp :: "('a \<Rightarrow> 'a \<Rightarrow> int) \<Rightarrow> 'a \<Rightarrow> 'a list \<Rightarrow> 'a list" where
  "insert_cmp cmp x [] = [x]"
| "insert_cmp cmp x (y # ys) = (if cmp x y \<le> 0 then x # y # ys else y # insert_cmp cmp x ys)"

fun sort_cmp :: "('a \<Rightarrow> 'a \<Rightarrow> int) \<Rightarrow> 'a list \<Rightarrow> 'a list" where
  "sort_cmp cmp [] = []"
| "sort_cmp cmp (x # xs) = insert_cmp cmp x (sort_cmp cmp xs)"

text \<open>
  The transaction list comes from a database query and is always an array, so the
  \<open>!transactions\<close> test of the source has no counterpart for a list.
\<close>

definition findPotentialMatches :: "days_diff \<Rightarrow> receipt \<Rightarrow> transaction list \<Rightarrow> match_candidate list" where
  "findPotentialMatches dd r ts =
     (if \<not> truthy_num (extracted_amount r) \<or> ts = [] then []
      else sort_cmp cmpConfidence (List.map_filter (scoreTransaction dd r) ts))"

section \<open>The auto-match policy\<close>

datatype match_status = pending | confirmed | rejected | auto_matched

text \<open>
  An \<open>INSERT OR REPLACE INTO matches\<close> statement handed to the database: the values of
  the five columns.  The database itself is outside the repository's code; the policy is
  modelled by the statements it issues, in order.
\<close>

record match_upsert =
  u_transaction_id :: nat
  u_receipt_id :: nat
  u_match_confidence :: int
  u_match_status :: match_status
  u_user_confirmed :: bool

text \<open>
  The single-receipt path.  The two arguments after the receipt id are the results of the
  two queries: \<open>None\<close> for the receipt when the lookup failed or found nothing, \<open>None\<close> for
  the transactions when that query failed; in both cases the function logs and returns.
\<close>

definition triggerAutoMatchForReceipt ::
  "days_diff \<Rightarrow> nat \<Rightarrow> receipt option \<Rightarrow> transaction list option \<Rightarrow> match_upsert list" where
  "triggerAutoMatchForReceipt dd receiptId receipt transactions =
     (case receipt of
        None \<Rightarrow> []
      | Some r \<Rightarrow>
          (case transactions of
             None \<Rightarrow> []
           | Some ts \<Rightarrow>
               (case findPotentialMatches dd r ts of
                  bestMatch # _ \<Rightarrow>
                    (if confidence bestMatch \<ge> 70 then
                       [\<lparr>u_transaction_id = transaction_id (transaction bestMatch),
                         u_receipt_id = receiptId,
                         u_match_confidence = confidence bestMatch,
                         u_match_status = auto_matched,
                         u_user_confirmed = False\<rparr>]
                     else [])
                | [] \<Rightarrow> [])))"

text \<open>The bulk route: \<open>req.body.threshold || 70\<close>, then one decision for each receipt.\<close>

definition confidenceThreshold :: "rat option \<Rightarrow> rat" where
  "confidenceThreshold t = (if truthy_num t then the t else 70)"

definition autoMatchReceipt ::
  "rat \<Rightarrow> days_diff \<Rightarrow> transaction list \<Rightarrow> receipt \<Rightarrow> match_upsert option" where
  "autoMatchReceipt thr dd ts r =
     (case findPotentialMatches dd r ts of
        m # _ \<Rightarrow>
          (if of_int (confidence m) \<ge> thr then
             Some \<lparr>u_transaction_id = transaction_id (transaction m),
                   u_receipt_id = receipt_id r,
                   u_match_confidence = confidence m,
                   u_match_status = auto_matched,
                   u_user_confirmed = False\<rparr>
           else None)
      | [] \<Rightarrow> None)"

definition autoMatchAll ::
  "rat option \<Rightarrow> days_diff \<Rightarrow> receipt list \<Rightarrow> transaction list \<Rightarrow> match_upsert list" where
  "autoMatchAll threshold dd receipts ts =
     List.map_filter (autoMatchReceipt (confidenceThreshold threshold) dd ts) receipts"

section \<open>The field-extraction pipeline (processReceiptOCR)\<close>

subsection \<open>Parsing an amount\<close>

definition digitVal :: "char \<Rightarrow> int" where
  "digitVal c =
     (case map_of (zip ''0123456789'' [0, 1, 2, 3, 4, 5, 6, 7, 8, 9]) c of
        Some d \<Rightarrow> d | None \<Rightarrow> 0)"

definition digitsVal :: "string \<Rightarrow> int" where
  "digitsVal s = foldl (\<lambda>n c. 10 * n + digitVal c) 0 s"

text \<open>
  \<open>parseFloat\<close> on a string of digits, commas and dots, the only strings the pipeline
  hands to it (no sign, no exponent, no blank): the longest prefix of the form digits,
  optional dot, digits, converted to the nearest double.  \<open>None\<close> stands for a result
  that is no finite number: NaN when that prefix holds no digit, Infinity when the digits
  go beyond the largest double; every test of the pipeline rejects both alike.
\<close>

definition parseFloat :: "string \<Rightarrow> rat option" where
  "parseFloat s =
     (let ip = takeWhile isDigit s;
          r = dropWhile isDigit s;
          fp = (case r of [] \<Rightarrow> [] | c # r' \<Rightarrow> if c = CHR ''.'' then takeWhile isDigit r' else [])
      in if ip = [] \<and> fp = [] then None
         else toDouble (of_int (digitsVal ip) +
                        of_int (digitsVal fp) / of_int (foldl (\<lambda>n c. 10 * n) 1 fp)))"

fun replaceFirstChar :: "char \<Rightarrow> char \<Rightarrow> string \<Rightarrow> string" where
  "replaceFirstChar a b [] = []"
| "replaceFirstChar a b (c # cs) = (if c = a then b # cs else c # replaceFirstChar a b cs)"

text \<open>
  The currency symbols of the source's character classes are the dollar, the euro, the
  pound and the yen; the euro sign is no code unit below 256 and is left out.
\<close>

definition currencyChars :: string where
  "currencyChars = [CHR ''$'', CHR 0xA3, CHR 0xA5]"

definition commaCents :: regex where
  "commaCents = seqs [Sym '','', digit, digit, Eol]"

definition parseAmount :: "string \<Rightarrow> rat option" where
  "parseAmount amountStr =
     (let cleaned = filter (\<lambda>c. c \<notin> set (currencyChars @ spaceChars)) amountStr
      in parseFloat (if test commaCents cleaned then replaceFirstChar CHR '','' CHR ''.'' cleaned
                     else filter (\<lambda>c. c \<noteq> CHR '','') cleaned))"

subsection \<open>The patterns of the amount strategies\<close>

definition numc :: regex where
  "numc = Sym ''0123456789,''"

text \<open>\<open>[0-9,]+\.?\d{0,2}\<close> and \<open>[0-9,]+\.?\d{2}\<close>.\<close>

definition amt02 :: regex where
  "amt02 = seqs [Plus numc, Opt (Sym ''.''), Opt (Seq digit (Opt digit))]"

definition amt2 :: regex where
  "amt2 = seqs [Plus numc, Opt (Sym ''.''), digit, digit]"

text \<open>\<open>[\s:$...]*\<close>, the run between a label and its amount.\<close>

definition labelGap :: regex where
  "labelGap = Star (Sym (spaceChars @ '':'' @ currencyChars))"

text \<open>Two words of a label with \<open>\s*\<close> between them, under the \<open>i\<close> flag.\<close>

definition two :: "string \<Rightarrow> string \<Rightarrow> regex" where
  "two a b = seqs [ci a, Star ws, ci b]"

definition paymentRegex :: regex where
  "paymentRegex =
     seqs [alts [ci ''payment'', two ''payment'' ''amount'', two ''monthly'' ''charge'',
                 two ''service'' ''charge'', two ''bill'' ''amount'', ci ''charge'',
                 ci ''amount'', two ''total'' ''charges''],
           Opt (Alt (seqs [Star ws, ci ''usd'', Star ws]) (Seq (Star ws) labelGap)),
           amt02]"

definition usdRegex :: regex where
  "usdRegex =
     seqs [alts [ci ''payment'', two ''total'' ''charges'', ci ''subtotal'', two ''total'' ''tax''],
           ci ''usd'', Star ws, amt02]"

definition totalLine :: regex where
  "totalLine = seqs [Bol, lit ''total'', Star ws, Eol]"

definition dollarLine :: regex where
  "dollarLine = seqs [Bol, Sym ''$'', amt02, Eol]"

definition grandTotalRegex :: regex where
  "grandTotalRegex =
     seqs [alts [two ''grand'' ''total'', two ''final'' ''total'', two ''total'' ''amount'',
                 two ''amount'' ''due''],
           labelGap, amt02]"

definition totalRegex :: regex where
  "totalRegex = seqs [alts [Bol, ws, Sym '':''], ci ''total'', labelGap, amt02]"

definition subtotalRegex :: regex where
  "subtotalRegex = seqs [Alt (two ''sub'' ''total'') (ci ''subtotal''), labelGap, amt02]"

definition taxRegex :: regex where
  "taxRegex = seqs [alts [ci ''tax'', ci ''vat'', ci ''gst''], labelGap, amt02]"

definition currencyRegex :: regex where
  "currencyRegex = seqs [Sym ''$'', Star ws, amt02]"

definition standaloneLine :: regex where
  "standaloneLine = seqs [Bol, Opt (Sym ''$''), amt2, Eol]"

definition balanceRegex :: regex where
  "balanceRegex =
     seqs [alts [two ''balance'' ''due'', two ''amount'' ''owed'', two ''amount'' ''payable'',
                 two ''invoice'' ''amount''],
           labelGap, amt02]"

definition billingWord :: regex where
  "billingWord = alts [ci ''bill'', ci ''invoice'', ci ''charge'', ci ''amount'', ci ''payment'']"

text \<open>\<open>/^[^0-9,]*/\<close> and \<open>/^\$\s*/\<close>, removed from a match to leave its number.\<close>

definition leadingNonNumber :: regex where
  "leadingNonNumber = Seq Bol (Star (NSym ''0123456789,''))"

definition leadingDollar :: regex where
  "leadingDollar = seqs [Bol, Sym ''$'', Star ws]"

subsection \<open>The amount strategies\<close>

record amountBreakdown =
  subtotal :: "rat option"
  tax :: "rat option"
  total :: "rat option"
  grandTotal :: "rat option"

text \<open>\<open>!isNaN(amount) && amount > 0 && amount < 50000\<close>, and the test of the tax strategy.\<close>

definition validAmount :: "rat option \<Rightarrow> bool" where
  "validAmount v = (case v of None \<Rightarrow> False | Some a \<Rightarrow> a > 0 \<and> a < 50000)"

definition validTax :: "rat option \<Rightarrow> bool" where
  "validTax v = (case v of None \<Rightarrow> False | Some a \<Rightarrow> a \<ge> 0 \<and> a < 10000)"

text \<open>
  The loop shared by the label strategies: the first match whose number passes the test,
  the number being what is left of the match after \<open>strip\<close> is removed.
\<close>

fun firstAmount :: "(rat option \<Rightarrow> bool) \<Rightarrow> regex \<Rightarrow> string list \<Rightarrow> rat option" where
  "firstAmount ok strip [] = None"
| "firstAmount ok strip (m # ms) =
     (let amount = parseAmount (remove_first strip m)
      in if ok amount then amount else firstAmount ok strip ms)"

definition strategyPayment :: "string \<Rightarrow> amountBreakdown \<Rightarrow> amountBreakdown" where
  "strategyPayment text b =
     (case firstAmount validAmount leadingNonNumber (match_all paymentRegex text) of
        Some a \<Rightarrow> b\<lparr>total := Some a\<rparr>
      | None \<Rightarrow> b)"

definition strategyUsd :: "string \<Rightarrow> amountBreakdown \<Rightarrow> amountBreakdown" where
  "strategyUsd text b =
     (let usdMatches = match_all usdRegex text
      in if usdMatches \<noteq> [] \<and> \<not> truthy_num (total b) then
           (case firstAmount validAmount leadingNonNumber usdMatches of
              Some a \<Rightarrow> b\<lparr>total := Some a\<rparr>
            | None \<Rightarrow> b)
         else b)"

text \<open>
  The multi-line strategy: for each line but the last, in order, the line trimmed and
  lower-cased against \<open>/^total\s*$/\<close> and the next line trimmed against
  \<open>/^\$([0-9,]+\.?\d{0,2})$/\<close>; the first pair with a valid amount ends the loop.
\<close>

definition multiLinePair :: "string \<Rightarrow> string \<Rightarrow> rat option" where
  "multiLinePair cur nxt =
     (if test totalLine (toLowerCase (trim cur)) then
        (case match_first dollarLine (trim nxt) of
           Some m \<Rightarrow> (let amount = parseAmount (drop 1 m)
                      in if validAmount amount then amount else None)
         | None \<Rightarrow> None)
      else None)"

fun multiLineTotal :: "string list \<Rightarrow> rat option" where
  "multiLineTotal (cur # nxt # rest) =
     (case multiLinePair cur nxt of
        Some a \<Rightarrow> Some a
      | None \<Rightarrow> multiLineTotal (nxt # rest))"
| "multiLineTotal ls = None"

definition strategyMultiLine :: "string \<Rightarrow> amountBreakdown \<Rightarrow> amountBreakdown" where
  "strategyMultiLine text b =
     (case multiLineTotal (split_lines text) of
        Some a \<Rightarrow> b\<lparr>total := Some a\<rparr>
      | None \<Rightarrow> b)"

definition strategyGrandTotal :: "string \<Rightarrow> amountBreakdown \<Rightarrow> amountBreakdown" where
  "strategyGrandTotal text b =
     (case firstAmount validAmount leadingNonNumber (match_all grandTotalRegex text) of
        Some a \<Rightarrow> b\<lparr>grandTotal := Some a\<rparr>
      | None \<Rightarrow> b)"

definition strategyTotal :: "string \<Rightarrow> amountBreakdown \<Rightarrow> amountBreakdown" where
  "strategyTotal text b =
     (let totalMatches = match_all totalRegex text
      in if totalMatches \<noteq> [] \<and> \<not> truthy_num (grandTotal b) \<and> \<not> truthy_num (total b) then
           (case firstAmount validAmount leadingNonNumber totalMatches of
              Some a \<Rightarrow> b\<lparr>total := Some a\<rparr>
            | None \<Rightarrow> b)
         else b)"

definition strategySubtotal :: "string \<Rightarrow> amountBreakdown \<Rightarrow> amountBreakdown" where
  "strategySubtotal text b =
     (case firstAmount validAmount leadingNonNumber (match_all subtotalRegex text) of
        Some a \<Rightarrow> b\<lparr>subtotal := Some a\<rparr>
      | None \<Rightarrow> b)"

definition strategyTax :: "string \<Rightarrow> amountBreakdown \<Rightarrow> amountBreakdown" where
  "strategyTax text b =
     (case firstAmount validTax leadingNonNumber (match_all taxRegex text) of
        Some a \<Rightarrow> b\<lparr>tax := Some a\<rparr>
      | None \<Rightarrow> b)"

text \<open>The fallbacks run only while neither total nor grand total is set.\<close>

definition noTotal :: "amountBreakdown \<Rightarrow> bool" where
  "noTotal b = (\<not> truthy_num (total b) \<and> \<not> truthy_num (grandTotal b))"

fun largestAmount :: "rat option \<Rightarrow> string list \<Rightarrow> rat option" where
  "largestAmount best [] = best"
| "largestAmount best (m # ms) =
     (let amount = parseAmount (remove_first leadingDollar m)
      in if validAmount amount \<and> (\<not> truthy_num best \<or> the amount > the best)
         then largestAmount amount ms else largestAmount best ms)"

definition strategyCurrency :: "string \<Rightarrow> amountBreakdown \<Rightarrow> amountBreakdown" where
  "strategyCurrency text b =
     (if noTotal b then
        (let bestFallbackAmount = largestAmount None (match_all currencyRegex text)
         in if truthy_num bestFallbackAmount then b\<lparr>total := bestFallbackAmount\<rparr> else b)
      else b)"

fun standaloneAmount :: "string list \<Rightarrow> rat option" where
  "standaloneAmount [] = None"
| "standaloneAmount (line # ls) =
     (case match_first standaloneLine (trim line) of
        Some m \<Rightarrow> (let amount = parseAmount (remove_first (Seq Bol (Sym ''$'')) m)
                   in if validAmount amount then amount else standaloneAmount ls)
      | None \<Rightarrow> standaloneAmount ls)"

definition strategyStandalone :: "string \<Rightarrow> amountBreakdown \<Rightarrow> amountBreakdown" where
  "strategyStandalone text b =
     (if noTotal b then
        (case standaloneAmount (split_lines text) of
           Some a \<Rightarrow> b\<lparr>total := Some a\<rparr>
         | None \<Rightarrow> b)
      else b)"

definition strategyBalance :: "string \<Rightarrow> amountBreakdown \<Rightarrow> amountBreakdown" where
  "strategyBalance text b =
     (if noTotal b then
        (case firstAmount validAmount leadingNonNumber (match_all balanceRegex text) of
           Some a \<Rightarrow> b\<lparr>total := Some a\<rparr>
         | None \<Rightarrow> b)
      else b)"

text \<open>
  The billing-context fallback: from the first line that names a billing word on, the
  first number with two decimals in a line is taken when it is above 1.
\<close>

fun billingAmount :: "bool \<Rightarrow> string list \<Rightarrow> rat option" where
  "billingAmount found [] = None"
| "billingAmount found (l # ls) =
     (let line = trim l;
          foundInBillingSection = (found \<or> test billingWord line)
      in if foundInBillingSection then
           (case match_first amt2 line of
              Some m \<Rightarrow> (case parseAmount m of
                           Some a \<Rightarrow> if a > 1 \<and> a < 50000 then Some a
                                     else billingAmount foundInBillingSection ls
                         | None \<Rightarrow> billingAmount foundInBillingSection ls)
            | None \<Rightarrow> billingAmount foundInBillingSection ls)
         else billingAmount foundInBillingSection ls)"

definition strategyBilling :: "string \<Rightarrow> amountBreakdown \<Rightarrow> amountBreakdown" where
  "strategyBilling text b =
     (if noTotal b then
        (case billingAmount False (split_lines text) of
           Some a \<Rightarrow> b\<lparr>total := Some a\<rparr>
         | None \<Rightarrow> b)
      else b)"

definition emptyBreakdown :: amountBreakdown where
  "emptyBreakdown = \<lparr>subtotal = None, tax = None, total = None, grandTotal = None\<rparr>"

definition extractAmounts :: "string \<Rightarrow> amountBreakdown" where
  "extractAmounts text =
     strategyBilling text (strategyBalance text (strategyStandalone text (strategyCurrency text
       (strategyTax text (strategySubtotal text (strategyTotal text (strategyGrandTotal text
         (strategyMultiLine text (strategyUsd text (strategyPayment text emptyBreakdown))))))))))"

text \<open>\<open>grandTotal || total || subtotal\<close>.\<close>

definition mainAmount :: "amountBreakdown \<Rightarrow> rat option" where
  "mainAmount b =
     (if truthy_num (grandTotal b) then grandTotal b
      else if truthy_num (total b) then total b else subtotal b)"

subsection \<open>Date extraction\<close>

definition letter :: regex where
  "letter = Sym (take 26 lowerChars @ take 26 upperChars)"

text \<open>\<open>[a-z]+\s+\d{1,2},?\s+\d{4}\<close> under the \<open>i\<close> flag, and \<open>\d{1,2}[\/\-]\d{1,2}[\/\-]\d{2,4}\<close>.\<close>

definition dayYear :: regex where
  "dayYear = seqs [Plus ws, digit, Opt digit, Opt (Sym '',''), Plus ws, digit, digit, digit, digit]"

definition writtenDate :: regex where
  "writtenDate = Seq (Plus letter) dayYear"

definition numericDate :: regex where
  "numericDate = seqs [digit, Opt digit, Sym ''/-'', digit, Opt digit, Sym ''/-'',
                       digit, digit, Opt (Seq digit (Opt digit))]"

definition colonGap :: regex where
  "colonGap = Star (Sym (spaceChars @ '':''))"

definition monthName :: regex where
  "monthName = alts (map ci [''january'', ''february'', ''march'', ''april'', ''may'', ''june'',
     ''july'', ''august'', ''september'', ''october'', ''november'', ''december''])"

definition dateStrategies :: "regex list" where
  "dateStrategies =
     [seqs [alts [two ''invoice'' ''date'', two ''bill'' ''date'', two ''date'' ''paid''],
            colonGap, writtenDate],
      seqs [ci ''date'', Star ws, ci ''paid'', Star ws, writtenDate],
      seqs [ci ''date'', Plus ws, ci ''paid'', writtenDate],
      seqs [alts [two ''invoice'' ''date'', two ''bill'' ''date'', ci ''date''], colonGap, numericDate],
      seqs [Alt (two ''due'' ''date'') (two ''payment'' ''due''), colonGap,
            Alt writtenDate numericDate],
      numericDate,
      Seq monthName dayYear]"

text \<open>
  \<open>new Date(s)\<close> belongs to the JavaScript runtime.  It enters as a parameter: \<open>None\<close>
  for an invalid date, otherwise what \<open>getFullYear()\<close>, \<open>getMonth()\<close> (counted from 0) and
  \<open>getDate()\<close> return.  The constructor does not throw, so the \<open>catch\<close> of the source has
  no branch of its own.
\<close>

type_synonym date_parser = "string \<Rightarrow> (nat \<times> nat \<times> nat) option"

definition convertWritten :: "date_parser \<Rightarrow> string \<Rightarrow> string option" where
  "convertWritten newDate w =
     (case newDate w of
        None \<Rightarrow> None
      | Some (year, month0, day) \<Rightarrow>
          Some (padStart2 (show_nat (month0 + 1)) @ ''/'' @ padStart2 (show_nat day) @ ''/'' @
                show_nat year))"

text \<open>The loop over the matches of one strategy: the numeric form first, then the written one.\<close>

fun dateOfMatches :: "date_parser \<Rightarrow> string list \<Rightarrow> string option" where
  "dateOfMatches newDate [] = None"
| "dateOfMatches newDate (fullMatch # rest) =
     (case match_first numericDate fullMatch of
        Some d \<Rightarrow> Some d
      | None \<Rightarrow>
          (case match_first writtenDate fullMatch of
             Some w \<Rightarrow>
               (case convertWritten newDate w of
                  Some s \<Rightarrow> Some s
                | None \<Rightarrow> dateOfMatches newDate rest)
           | None \<Rightarrow> dateOfMatches newDate rest))"

text \<open>
  The loop over the strategies, on the list of what \<open>extractedText.match(dateRegex)\<close> gives
  for each of them: the first strategy whose matches yield a date ends it.
\<close>

fun firstDate :: "date_parser \<Rightarrow> string list list \<Rightarrow> string option" where
  "firstDate newDate [] = None"
| "firstDate newDate (dateMatches # rest) =
     (case dateOfMatches newDate dateMatches of
        Some d \<Rightarrow> Some d
      | None \<Rightarrow> firstDate newDate rest)"

definition extractDate :: "date_parser \<Rightarrow> string \<Rightarrow> string option" where
  "extractDate newDate extractedText =
     firstDate newDate (map (\<lambda>dateRegex. match_all dateRegex extractedText) dateStrategies)"

subsection \<open>Merchant extraction\<close>

definition wordChars :: string where
  "wordChars = take 26 lowerChars @ take 26 upperChars @ ''0123456789_''"

definition excludePatterns :: "regex list" where
  "excludePatterns =
     [seqs [Bol, ci ''page'', Plus ws, Plus digit],
      seqs [Bol, Plus digit, Eol],
      seqs [Bol, Plus (Sym (''0123456789'' @ spaceChars @ ''-()'')), Eol],
      alts [ci ''invoice'', ci ''bill'', ci ''receipt'', ci ''statement''],
      alts [ci ''total'', ci ''subtotal'', ci ''tax'', ci ''amount'', ci ''due''],
      seqs [Bol, alts [ci ''to'', ci ''from'', ci ''attn'', ci ''attention''], Sym '':''],
      seqs [Bol, alts [ci ''phone'', ci ''tel'', ci ''fax'', ci ''email'', ci ''address'']],
      seqs [Bol, alts [ci ''thank you'', ci ''thanks'']],
      seqs [Bol, Plus (NSym wordChars), Eol]]"

definition justNumber :: regex where
  "justNumber = seqs [Bol, Plus digit, Sym ''.,'', Plus digit, Eol]"

definition companyIndicator :: regex where
  "companyIndicator =
     alts [ci ''llc'', ci ''inc'', ci ''corp'', ci ''company'', ci ''co.'', ci ''ltd'', ci ''ltd'',
           ci ''construction'', ci ''services'', ci ''group'']"

definition properCapital :: regex where
  "properCapital = seqs [Bol, Sym (take 26 upperChars), Sym (take 26 lowerChars)]"

text \<open>
  The loop over the first 8 non-blank lines; \<open>pm\<close> is \<open>potentialMerchant\<close>.  A line with a
  company indicator ends the loop.
\<close>

fun headerMerchant :: "string option \<Rightarrow> string list \<Rightarrow> string option" where
  "headerMerchant pm [] = pm"
| "headerMerchant pm (l # ls) =
     (let line = trim l
      in if length line \<ge> 3 \<and> length line \<le> 60 \<and>
            \<not> list_ex (\<lambda>pattern. test pattern line) excludePatterns \<and>
            \<not> test justNumber line
         then if test companyIndicator line then Some line
              else if test properCapital line \<and> pm = None then headerMerchant (Some line) ls
              else headerMerchant pm ls
         else headerMerchant pm ls)"

text \<open>\<open>/(?:bill\s*to|from|vendor)[\s:]*\n([^\n]+)/i\<close>; the group is the last line of the match.\<close>

definition billToRegex :: regex where
  "billToRegex =
     seqs [alts [two ''bill'' ''to'', ci ''from'', ci ''vendor''], colonGap, Sym [CHR 0x0A],
           Plus (NSym [CHR 0x0A])]"

definition billToMerchant :: "string \<Rightarrow> string option" where
  "billToMerchant text =
     (case match_first billToRegex text of
        None \<Rightarrow> None
      | Some m \<Rightarrow>
          (let candidate = trim (last (split_lines m))
           in if length candidate \<ge> 3 \<and> length candidate \<le> 60 then Some candidate else None))"

definition servicePatterns :: "regex list" where
  "servicePatterns =
     [seqs [alts [two ''service'' ''provider'', two ''provided'' ''by'', ci ''from'', ci ''vendor''],
            colonGap, Plus (NSym [CHR 0x0A])],
      Alt (ci ''starlink'') (ci ''spacex''),
      alts [ci ''internet'', ci ''satellite'', ci ''connectivity''],
      Alt (ci ''birdseye'') (ci ''surveillance'')]"

fun serviceOfMatches :: "string list \<Rightarrow> string option" where
  "serviceOfMatches [] = None"
| "serviceOfMatches (m # ms) =
     (if test (Alt (ci ''starlink'') (ci ''spacex'')) m then Some ''Starlink''
      else if test (Alt (ci ''birdseye'') (ci ''surveillance'')) m
      then Some ''Birdseye Surveillance LLC''
      else serviceOfMatches ms)"

fun serviceMerchant :: "string option \<Rightarrow> regex list \<Rightarrow> string \<Rightarrow> string option" where
  "serviceMerchant pm [] text = pm"
| "serviceMerchant pm (pattern # others) text =
     (let serviceMatches = match_all pattern text
      in if serviceMatches \<noteq> [] then
           (let pm' = (case serviceOfMatches serviceMatches of Some name \<Rightarrow> Some name | None \<Rightarrow> pm)
            in if pm' = Some ''Starlink'' \<or> pm' = Some ''Birdseye Surveillance LLC'' then pm'
               else serviceMerchant pm' others text)
         else serviceMerchant pm others text)"

definition extractMerchant :: "string \<Rightarrow> string option" where
  "extractMerchant text =
     (let lines = filter (\<lambda>line. trim line \<noteq> []) (split_lines text);
          pm1 = headerMerchant None (take 8 lines);
          pm2 = (if pm1 = None then billToMerchant text else pm1);
          pm3 = (if pm2 = None \<or> str_includes (the pm2) ''Chasco''
                 then serviceMerchant pm2 servicePatterns text else pm2);
          lower = toLowerCase text
      in if str_includes lower ''birdseye'' \<and> str_includes lower ''surveillance''
         then Some ''Birdseye Surveillance LLC'' else pm3)"

subsection \<open>The whole function\<close>

datatype mime = PDF | Image

datatype ocr_error = Unreadable

record ocr_result =
  ocr_text :: string
  extractedAmount :: "rat option"
  extractedDate :: "string option"
  extractedMerchant :: "string option"
  breakdown :: amountBreakdown

text \<open>
  The second argument is what the reader (pdf-parse for a PDF, Tesseract for an image)
  delivers: the text, or the error it throws, which the function throws on.  A PDF whose
  text, trimmed, has fewer than 10 characters is replaced by a fixed sentence, and the
  extraction then runs on that sentence.
\<close>

definition processReceiptOCR :: "date_parser \<Rightarrow> mime \<Rightarrow> ocr_error + string \<Rightarrow> ocr_error + ocr_result" where
  "processReceiptOCR newDate mimeType source =
     (case source of
        Inl e \<Rightarrow> Inl e
      | Inr raw \<Rightarrow>
          (let extractedText =
                 (if mimeType = PDF \<and> (raw = [] \<or> length (trim raw) < 10)
                  then ''No extractable text found in PDF'' else raw);
               b = extractAmounts extractedText
           in Inr \<lparr>ocr_text = extractedText,
                   extractedAmount = mainAmount b,
                   extractedDate = extractDate newDate extractedText,
                   extractedMerchant = extractMerchant extractedText,
                   breakdown = b\<rparr>))"

section \<open>Sample inputs\<close>

text \<open>Receipts and transactions to run the engine and the policy on; every date pair is the same day.\<close>

definition sameDay :: days_diff where
  "sameDay d1 d2 = Some 0"

definition receipt1 :: receipt where
  "receipt1 = \<lparr>receipt_id = 1, extracted_amount = Some 100,
               extracted_date = Some ''07/22/2025'', extracted_merchant = Some ''OpenAI LLC''\<rparr>"

definition txExact :: transaction where
  "txExact = \<lparr>transaction_id = 7, transaction_date = Some ''2025-07-22'',
              description = Some ''OPENAI *CHATGPT SUBSCR'', amount = - 100\<rparr>"

definition txFar :: transaction where
  "txFar = \<lparr>transaction_id = 8, transaction_date = Some ''2025-07-22'',
            description = Some ''OPENAI *CHATGPT SUBSCR'', amount = 301 / 2\<rparr>"

definition txPlain :: transaction where
  "txPlain = \<lparr>transaction_id = 9, transaction_date = None, description = None, amount = 100\<rparr>"

definition txPlainB :: transaction where
  "txPlainB = \<lparr>transaction_id = 10, transaction_date = None, description = Some ''ATM'',
               amount = - 100\<rparr>"

definition receipt2 :: receipt where
  "receipt2 = \<lparr>receipt_id = 2, extracted_amount = Some 500,
               extracted_date = None, extracted_merchant = None\<rparr>"







text \<open>A date constructor that knows one written date, to run the date extraction with.\<close>

definition julyOnly :: date_parser where
  "julyOnly s = (if s = ''July 22, 2025'' then Some (2025, 6, 22) else None)"

section \<open>Properties of the match-scoring engine\<close>

lemma set_insert_cmp: "set (insert_cmp cmp x ys) = insert x (set ys)"
  by (induction ys) auto

lemma set_sort_cmp: "set (sort_cmp cmp xs) = set xs"
  by (induction xs) (auto simp: set_insert_cmp)

lemma sorted_insert_cmp:
  "sorted_wrt (\<lambda>a b. confidence b \<le> confidence a) ys \<Longrightarrow>
   sorted_wrt (\<lambda>a b. confidence b \<le> confidence a) (insert_cmp cmpConfidence x ys)"
  by (induction ys) (auto simp: set_insert_cmp cmpConfidence_def)

lemma sorted_sort_cmp:
  "sorted_wrt (\<lambda>a b. confidence b \<le> confidence a) (sort_cmp cmpConfidence xs)"
  by (induction xs) (auto simp: sorted_insert_cmp)

text \<open>Insertion leaves the candidates of one confidence in the order they had.\<close>

lemma filter_insert_cmp:
  "sorted_wrt (\<lambda>a b. confidence b \<le> confidence a) ys \<Longrightarrow>
   filter (\<lambda>c. confidence c = k) (insert_cmp cmpConfidence x ys) =
   (if confidence x = k then x # filter (\<lambda>c. confidence c = k) ys
    else filter (\<lambda>c. confidence c = k) ys)"
proof (induction ys)
  case Nil
  then show ?case by simp
next
  case (Cons y ys)
  show ?case
  proof (cases "cmpConfidence x y \<le> 0")
    case True
    then show ?thesis by simp
  next
    case False
    then have lt: "confidence x < confidence y" by (simp add: cmpConfidence_def)
    from Cons.prems have "sorted_wrt (\<lambda>a b. confidence b \<le> confidence a) ys" by simp
    from Cons.IH[OF this] False lt show ?thesis by auto
  qed
qed

lemma filter_sort_cmp:
  "filter (\<lambda>c. confidence c = k) (sort_cmp cmpConfidence xs) = filter (\<lambda>c. confidence c = k) xs"
  by (induction xs) (simp_all add: filter_insert_cmp sorted_sort_cmp)

lemma sorted_findPotentialMatches:
  "sorted_wrt (\<lambda>a b. confidence b \<le> confidence a) (findPotentialMatches dd r ts)"
  by (simp add: findPotentialMatches_def sorted_sort_cmp)

lemma math_round_ge: "10 \<le> x \<Longrightarrow> 10 \<le> math_round x"
  unfolding math_round_def by linarith

lemma math_round_le: "x \<le> 105 \<Longrightarrow> math_round x \<le> 105"
  unfolding math_round_def by linarith

lemma amountScore_le: "fst (amountScore d) \<le> 60"
  by (simp add: amountScore_def split: jsnum.splits)




lemma dateScore_le: "fst (dateScore dd r t) \<le> 25"
  by (simp add: dateScore_def split: option.splits)

lemma merchantScore_le: "fst (merchantScore r t) \<le> 20"
  by (simp add: merchantScore_def Let_def)

lemma scoreTransaction_raw:
  "scoreTransaction dd r t =
     (if rawConfidence dd r t \<ge> 10 then
        Some \<lparr>transaction = t,
              confidence = math_round (rawConfidence dd r t),
              reasons = snd (amountScore (amountDiffOf r t)) @ snd (dateScore dd r t) @
                        snd (merchantScore r t),
              amountDiff = amountDiffOf r t\<rparr>
      else None)"
  by (simp add: scoreTransaction_def rawConfidence_def Let_def)

lemma rawConfidence_le: "rawConfidence dd r t \<le> 105"
  using amountScore_le[of "amountDiffOf r t"] dateScore_le[of dd r t] merchantScore_le[of r t]
  by (simp add: rawConfidence_def)

lemma in_findPotentialMatches:
  "c \<in> set (findPotentialMatches dd r ts) \<Longrightarrow>
   truthy_num (extracted_amount r) \<and> (\<exists>t. t \<in> set ts \<and> scoreTransaction dd r t = Some c)"
  by (auto simp: findPotentialMatches_def set_sort_cmp map_filter_def split: if_splits)

lemma scoreTransaction_transaction: "scoreTransaction dd r t = Some c \<Longrightarrow> transaction c = t"
  by (auto simp: scoreTransaction_raw split: if_splits)

lemma map_transaction_filter_map_filter:
  "map transaction (filter (\<lambda>c. confidence c = k) (List.map_filter (scoreTransaction dd r) ts)) =
   filter (\<lambda>t. map_option confidence (scoreTransaction dd r t) = Some k) ts"
proof (induction ts)
  case Nil
  then show ?case by (simp add: map_filter_simps)
next
  case (Cons t ts)
  then show ?case
    by (cases "scoreTransaction dd r t") (auto simp: map_filter_simps scoreTransaction_transaction)
qed

lemma wordMatches_le: "wordMatches m d \<le> eligibleCount m"
proof -
  have "filter (\<lambda>w. eligibleWord w \<and> str_includes (toLowerCase d) w) (merchantWords m) =
        filter (\<lambda>w. str_includes (toLowerCase d) w) (filter eligibleWord (merchantWords m))"
    by (simp add: conj_commute)
  then show ?thesis
    unfolding wordMatches_def eligibleCount_def by (metis length_filter_le)
qed

text \<open>
  C3: a receipt whose extracted amount is null, and any receipt paired with an empty
  transaction list, gets the empty candidate list; the function has no failing branch.
\<close>

theorem findPotentialMatches_empty:
  "findPotentialMatches dd (r\<lparr>extracted_amount := None\<rparr>) ts = [] \<and>
   findPotentialMatches dd r [] = []"
  by (simp add: findPotentialMatches_def truthy_num_def)

theorem findPotentialMatches_empty_witness:
  "findPotentialMatches sameDay (receipt1\<lparr>extracted_amount := None\<rparr>) [txExact] = [] \<and>
   findPotentialMatches sameDay receipt1 [] = []"
  using findPotentialMatches_empty[of sameDay receipt1 "[txExact]"] by simp




text \<open>
  C4: the confidence of every returned candidate is an integer between 10 and 105; the
  engine does not clamp it to 100: an exact amount, the same day and a full merchant match
  give 105.
\<close>

theorem confidence_bounds:
  "(\<forall>c \<in> set (findPotentialMatches dd r ts). 10 \<le> confidence c \<and> confidence c \<le> 105) \<and>
   (dd ''07/22/2025'' ''2025-07-22'' = Some 0 \<longrightarrow>
      map confidence (findPotentialMatches dd receipt1 [txExact]) = [105])"
proof -
  have "10 \<le> confidence c \<and> confidence c \<le> 105"
    if "c \<in> set (findPotentialMatches dd r ts)" for c
  proof -
    from that obtain t where t: "scoreTransaction dd r t = Some c"
      using in_findPotentialMatches by blast
    then have raw: "10 \<le> rawConfidence dd r t"
      and c: "confidence c = math_round (rawConfidence dd r t)"
      by (auto simp: scoreTransaction_raw split: if_splits)
    show ?thesis
      using raw c math_round_ge math_round_le rawConfidence_le by simp
  qed
  moreover have "map confidence (findPotentialMatches dd receipt1 [txExact]) = [105]"
    if dd: "dd ''07/22/2025'' ''2025-07-22'' = Some 0"
  proof -
    have m: "merchantScore receipt1 txExact =
             (20, [''Merchant keywords match (1 words, 1 significant)''])"
      by code_simp
    have raw: "rawConfidence dd receipt1 txExact = 105"
      unfolding rawConfidence_def m
      by (simp add: dd dateScore_def amountScore_def amountDiffOf_def to_number_def toDouble_def
            truthy_str_def receipt1_def txExact_def)
    have "math_round 105 = 105"
      unfolding math_round_def by linarith
    then show ?thesis
      by (simp add: findPotentialMatches_def map_filter_simps scoreTransaction_raw raw)
         (simp add: receipt1_def truthy_num_def)
  qed
  ultimately show ?thesis by blast
qed

theorem confidence_bounds_witness:
  "set (map confidence (findPotentialMatches sameDay receipt1 [txFar, txExact, txPlain]))
     \<subseteq> {10..105} \<and>
   map confidence (findPotentialMatches sameDay receipt1 [txExact]) = [105]"
  using confidence_bounds[of sameDay receipt1 "[txFar, txExact, txPlain]"]
  by (auto simp: sameDay_def)

text \<open>
  C5: the returned list is in descending order of confidence, and for each confidence
  value the transactions of the candidates having it are, in order, exactly the input
  transactions that score it: ties keep the input order.
\<close>

theorem candidates_sorted_stable:
  "sorted_wrt (\<lambda>a b. confidence b \<le> confidence a) (findPotentialMatches dd r ts) \<and>
   (\<forall>k. map transaction (filter (\<lambda>c. confidence c = k) (findPotentialMatches dd r ts)) =
     (if truthy_num (extracted_amount r)
      then filter (\<lambda>t. map_option confidence (scoreTransaction dd r t) = Some k) ts else []))"
  by (simp add: findPotentialMatches_def sorted_sort_cmp filter_sort_cmp
        map_transaction_filter_map_filter)

theorem candidates_sorted_stable_witness:
  "sorted_wrt (\<lambda>a b. confidence b \<le> confidence a)
     (findPotentialMatches sameDay receipt1 [txPlain, txExact, txPlainB]) \<and>
   map transaction (filter (\<lambda>c. confidence c = 60)
     (findPotentialMatches sameDay receipt1 [txPlain, txExact, txPlainB])) = [txPlain, txPlainB]"
proof -
  have f: "filter (\<lambda>t. map_option confidence (scoreTransaction sameDay receipt1 t) = Some 60)
             [txPlain, txExact, txPlainB] = [txPlain, txPlainB]"
    by code_simp
  have t: "truthy_num (extracted_amount receipt1)"
    by (simp add: receipt1_def truthy_num_def)
  show ?thesis
    using candidates_sorted_stable[of sameDay receipt1 "[txPlain, txExact, txPlainB]"] f t
    by simp
qed

text \<open>
  C10: when a merchant word matches, the divisor of the base percentage, the number of
  merchant words longer than 2 outside the stoplist, is at least 1 and at least the number
  of matches; the merchant points are then the minimum of 20 and a sum of a positive
  quotient times 15 and a bonus, a number above 0 and at most 20.
\<close>

theorem merchant_divisor_positive:
  assumes "extracted_merchant r = Some m" and "description t = Some d"
    and "0 < wordMatches m d"
  shows "1 \<le> eligibleCount m \<and> wordMatches m d \<le> eligibleCount m \<and>
         eligibleCount m =
           length (filter (\<lambda>w. length w > 2 \<and>
                     w \<notin> set [''llc'', ''inc'', ''corp'', ''ltd'', ''company'', ''co''])
                   (merchantWords m)) \<and>
         fst (merchantScore r t) =
           min (of_nat (wordMatches m d) / of_nat (eligibleCount m) * 15 +
                of_nat (significantWordMatches m d) * 5) 20 \<and>
         0 < fst (merchantScore r t) \<and> fst (merchantScore r t) \<le> 20"
proof -
  have le: "wordMatches m d \<le> eligibleCount m"
    by (rule wordMatches_le)
  with assms(3) have pos: "1 \<le> eligibleCount m"
    by linarith
  from assms(3) obtain w where w: "w \<in> set (merchantWords m)" "eligibleWord w"
      "str_includes (toLowerCase d) w"
    unfolding wordMatches_def by (metis (mono_tags, lifting) filter_False length_greater_0_conv)
  from w(2) have wl: "2 < length w"
    by (simp add: eligibleWord_def)
  have m: "m \<noteq> []"
  proof
    assume "m = []"
    then have "merchantWords m = [[]]"
      by (simp add: merchantWords_def toLowerCase_def split_re_def split_from.simps)
    with w(1) wl show False by simp
  qed
  have d: "d \<noteq> []"
  proof
    assume "d = []"
    with w(3) have "w = []" by (simp add: toLowerCase_def)
    with wl show False by simp
  qed
  have score: "fst (merchantScore r t) =
      min (of_nat (wordMatches m d) / of_nat (eligibleCount m) * 15 +
           of_nat (significantWordMatches m d) * 5) 20"
    using assms m d
    by (simp add: merchantScore_def truthy_str_def Let_def wordMatches_def eligibleCount_def
          significantWordMatches_def)
  have "0 < (of_nat (wordMatches m d) / of_nat (eligibleCount m) :: rat)"
    using assms(3) pos by simp
  then have "0 < (of_nat (wordMatches m d) / of_nat (eligibleCount m) :: rat) * 15"
    by (rule mult_pos_pos) simp
  moreover have "0 \<le> (of_nat (significantWordMatches m d) * 5 :: rat)"
    by simp
  ultimately have "0 < (of_nat (wordMatches m d) / of_nat (eligibleCount m) * 15 +
                  of_nat (significantWordMatches m d) * 5 :: rat)"
    by (rule add_pos_nonneg)
  then have sp: "0 < fst (merchantScore r t)"
    unfolding score by simp
  have el: "eligibleCount m =
      length (filter (\<lambda>w. length w > 2 \<and>
                w \<notin> set [''llc'', ''inc'', ''corp'', ''ltd'', ''company'', ''co''])
              (merchantWords m))"
    unfolding eligibleCount_def eligibleWord_def[abs_def] ..
  show ?thesis
    using pos le el score sp merchantScore_le[of r t] by blast
qed

theorem merchant_divisor_positive_witness:
  "wordMatches ''OpenAI LLC'' ''OPENAI *CHATGPT SUBSCR'' = 1 \<and>
   eligibleCount ''OpenAI LLC'' = 1 \<and>
   fst (merchantScore receipt1 txExact) = 20"
proof -
  have w: "wordMatches ''OpenAI LLC'' ''OPENAI *CHATGPT SUBSCR'' = 1"
    by code_simp
  have e: "eligibleCount ''OpenAI LLC'' = 1"
    by code_simp
  have s: "significantWordMatches ''OpenAI LLC'' ''OPENAI *CHATGPT SUBSCR'' = 1"
    by code_simp
  have p: "0 < wordMatches ''OpenAI LLC'' ''OPENAI *CHATGPT SUBSCR''"
    by (simp add: w)
  have r: "extracted_merchant receipt1 = Some ''OpenAI LLC''"
    by (simp add: receipt1_def)
  have t: "description txExact = Some ''OPENAI *CHATGPT SUBSCR''"
    by (simp add: txExact_def)
  have "fst (merchantScore receipt1 txExact) =
      min (of_nat (wordMatches ''OpenAI LLC'' ''OPENAI *CHATGPT SUBSCR'') /
           of_nat (eligibleCount ''OpenAI LLC'') * 15 +
           of_nat (significantWordMatches ''OpenAI LLC'' ''OPENAI *CHATGPT SUBSCR'') * 5) 20"
    using merchant_divisor_positive[OF r t p] by blast
  then have "fst (merchantScore receipt1 txExact) = 20"
    by (simp add: w e s)
  with w e show ?thesis
    by simp
qed

section \<open>Properties of the auto-match policy\<close>

text \<open>The first candidate of the engine's list has the highest confidence.\<close>

lemma head_is_best:
  assumes "findPotentialMatches dd r ts = m # ms"
  shows "\<forall>c \<in> set (findPotentialMatches dd r ts). confidence c \<le> confidence m"
proof -
  have "sorted_wrt (\<lambda>a b. confidence b \<le> confidence a) (m # ms)"
    using sorted_findPotentialMatches[of dd r ts] assms by simp
  then show ?thesis
    using assms by auto
qed

lemma reaches_threshold_iff:
  "(\<exists>c \<in> set (findPotentialMatches dd r ts). thr \<le> (of_int (confidence c) :: rat)) \<longleftrightarrow>
   (case findPotentialMatches dd r ts of [] \<Rightarrow> False | m # _ \<Rightarrow> thr \<le> of_int (confidence m))"
proof (cases "findPotentialMatches dd r ts")
  case Nil
  then show ?thesis by simp
next
  case (Cons m ms)
  have "thr \<le> of_int (confidence m)" if "c \<in> set (m # ms)" "thr \<le> of_int (confidence c)" for c
  proof -
    have "confidence c \<le> confidence m"
      using head_is_best[OF Cons] that(1) Cons by auto
    then have "(of_int (confidence c) :: rat) \<le> of_int (confidence m)"
      by simp
    with that(2) show ?thesis by linarith
  qed
  then show ?thesis
    using Cons by auto
qed

text \<open>
  C2: on both paths a statement is issued for a receipt exactly when a candidate reaches
  the threshold (70 on the single-receipt path; on the bulk path the caller's value, or 70
  when none or 0 is given); it is the one statement for the top-ranked candidate's
  transaction and this receipt, with status auto_matched and user_confirmed false.  When
  no candidate reaches the threshold nothing is issued, and no branch fails.  The bulk
  route issues exactly the statements of its receipts, in order.
\<close>

theorem auto_match_policy:
  "triggerAutoMatchForReceipt dd rid (Some r) (Some ts) =
     (if \<exists>c \<in> set (findPotentialMatches dd r ts). 70 \<le> confidence c then
        [\<lparr>u_transaction_id = transaction_id (transaction (hd (findPotentialMatches dd r ts))),
          u_receipt_id = rid,
          u_match_confidence = confidence (hd (findPotentialMatches dd r ts)),
          u_match_status = auto_matched,
          u_user_confirmed = False\<rparr>]
      else []) \<and>
   autoMatchReceipt thr dd ts r =
     (if \<exists>c \<in> set (findPotentialMatches dd r ts). thr \<le> of_int (confidence c) then
        Some \<lparr>u_transaction_id = transaction_id (transaction (hd (findPotentialMatches dd r ts))),
              u_receipt_id = receipt_id r,
              u_match_confidence = confidence (hd (findPotentialMatches dd r ts)),
              u_match_status = auto_matched,
              u_user_confirmed = False\<rparr>
      else None) \<and>
   (\<forall>c \<in> set (findPotentialMatches dd r ts).
      confidence c \<le> confidence (hd (findPotentialMatches dd r ts))) \<and>
   confidenceThreshold None = 70 \<and> confidenceThreshold (Some 0) = 70 \<and>
   (x \<noteq> 0 \<longrightarrow> confidenceThreshold (Some x) = x) \<and>
   autoMatchAll threshold dd receipts ts =
     map the (filter (\<lambda>u. u \<noteq> None)
       (map (autoMatchReceipt (confidenceThreshold threshold) dd ts) receipts))"
proof -
  have single: "triggerAutoMatchForReceipt dd rid (Some r) (Some ts) =
     (if \<exists>c \<in> set (findPotentialMatches dd r ts). 70 \<le> confidence c then
        [\<lparr>u_transaction_id = transaction_id (transaction (hd (findPotentialMatches dd r ts))),
          u_receipt_id = rid,
          u_match_confidence = confidence (hd (findPotentialMatches dd r ts)),
          u_match_status = auto_matched,
          u_user_confirmed = False\<rparr>]
      else [])"
  proof (cases "findPotentialMatches dd r ts")
    case Nil
    then show ?thesis by (simp add: triggerAutoMatchForReceipt_def)
  next
    case (Cons m ms)
    have "(\<exists>c \<in> set (m # ms). 70 \<le> confidence c) \<longleftrightarrow> 70 \<le> confidence m"
      using reaches_threshold_iff[of dd r ts 70] Cons by simp
    then show ?thesis
      using Cons by (simp add: triggerAutoMatchForReceipt_def)
  qed
  have bulk: "autoMatchReceipt thr dd ts r =
     (if \<exists>c \<in> set (findPotentialMatches dd r ts). thr \<le> of_int (confidence c) then
        Some \<lparr>u_transaction_id = transaction_id (transaction (hd (findPotentialMatches dd r ts))),
              u_receipt_id = receipt_id r,
              u_match_confidence = confidence (hd (findPotentialMatches dd r ts)),
              u_match_status = auto_matched,
              u_user_confirmed = False\<rparr>
      else None)"
  proof (cases "findPotentialMatches dd r ts")
    case Nil
    then show ?thesis by (simp add: autoMatchReceipt_def)
  next
    case (Cons m ms)
    have "(\<exists>c \<in> set (m # ms). thr \<le> of_int (confidence c)) \<longleftrightarrow> thr \<le> of_int (confidence m)"
      using reaches_threshold_iff[of dd r ts thr] Cons by simp
    then show ?thesis
      using Cons by (simp add: autoMatchReceipt_def)
  qed
  have best: "\<forall>c \<in> set (findPotentialMatches dd r ts).
      confidence c \<le> confidence (hd (findPotentialMatches dd r ts))"
  proof (cases "findPotentialMatches dd r ts")
    case Nil
    then show ?thesis by simp
  next
    case (Cons m ms)
    then show ?thesis using head_is_best[OF Cons] by simp
  qed
  have thr: "confidenceThreshold None = 70 \<and> confidenceThreshold (Some 0) = 70 \<and>
      (x \<noteq> 0 \<longrightarrow> confidenceThreshold (Some x) = x)"
    by (simp add: confidenceThreshold_def truthy_num_def)
  have all: "autoMatchAll threshold dd receipts ts =
     map the (filter (\<lambda>u. u \<noteq> None)
       (map (autoMatchReceipt (confidenceThreshold threshold) dd ts) receipts))"
    by (simp add: autoMatchAll_def map_filter_def filter_map comp_def)
  show ?thesis
    using single bulk best thr all by blast
qed

theorem auto_match_policy_witness:
  "triggerAutoMatchForReceipt sameDay 1 (Some receipt1) (Some [txFar, txExact, txPlain]) =
     [\<lparr>u_transaction_id = 7, u_receipt_id = 1, u_match_confidence = 105,
       u_match_status = auto_matched, u_user_confirmed = False\<rparr>] \<and>
   triggerAutoMatchForReceipt sameDay 1 (Some receipt1) (Some [txFar, txPlain]) = [] \<and>
   autoMatchReceipt 50 sameDay [txFar, txPlain] receipt1 =
     Some \<lparr>u_transaction_id = 9, u_receipt_id = 1, u_match_confidence = 60,
           u_match_status = auto_matched, u_user_confirmed = False\<rparr> \<and>
   autoMatchAll None sameDay [receipt2, receipt1] [txFar, txExact, txPlain] =
     [\<lparr>u_transaction_id = 7, u_receipt_id = 1, u_match_confidence = 105,
       u_match_status = auto_matched, u_user_confirmed = False\<rparr>]"
proof -
  have a: "map (\<lambda>c. (transaction_id (transaction c), confidence c))
             (findPotentialMatches sameDay receipt1 [txFar, txExact, txPlain]) =
           [(7, 105), (9, 60), (8, 45)]"
    by code_simp
  have b: "map (\<lambda>c. (transaction_id (transaction c), confidence c))
             (findPotentialMatches sameDay receipt1 [txFar, txPlain]) = [(9, 60), (8, 45)]"
    by code_simp
  have c: "findPotentialMatches sameDay receipt2 [txFar, txExact, txPlain] = []"
    by code_simp
  have r: "receipt_id receipt1 = 1"
    by (simp add: receipt1_def)
  have 1: "triggerAutoMatchForReceipt sameDay 1 (Some receipt1) (Some [txFar, txExact, txPlain]) =
     [\<lparr>u_transaction_id = 7, u_receipt_id = 1, u_match_confidence = 105,
       u_match_status = auto_matched, u_user_confirmed = False\<rparr>]"
    using auto_match_policy[of sameDay 1 receipt1 "[txFar, txExact, txPlain]"] a
    by (cases "findPotentialMatches sameDay receipt1 [txFar, txExact, txPlain]") auto
  have 2: "triggerAutoMatchForReceipt sameDay 1 (Some receipt1) (Some [txFar, txPlain]) = []"
    using auto_match_policy[of sameDay 1 receipt1 "[txFar, txPlain]"] b
    by (cases "findPotentialMatches sameDay receipt1 [txFar, txPlain]") auto
  have 3: "autoMatchReceipt 50 sameDay [txFar, txPlain] receipt1 =
     Some \<lparr>u_transaction_id = 9, u_receipt_id = 1, u_match_confidence = 60,
           u_match_status = auto_matched, u_user_confirmed = False\<rparr>"
    using auto_match_policy[of sameDay 1 receipt1 "[txFar, txPlain]" 50] b r
    by (cases "findPotentialMatches sameDay receipt1 [txFar, txPlain]") auto
  have 4: "autoMatchReceipt 70 sameDay [txFar, txExact, txPlain] receipt1 =
     Some \<lparr>u_transaction_id = 7, u_receipt_id = 1, u_match_confidence = 105,
           u_match_status = auto_matched, u_user_confirmed = False\<rparr>"
    using auto_match_policy[of sameDay 1 receipt1 "[txFar, txExact, txPlain]" 70] a r
    by (cases "findPotentialMatches sameDay receipt1 [txFar, txExact, txPlain]") auto
  have 5: "autoMatchReceipt 70 sameDay [txFar, txExact, txPlain] receipt2 = None"
    by (simp add: autoMatchReceipt_def c)
  have "autoMatchAll None sameDay [receipt2, receipt1] [txFar, txExact, txPlain] =
     [\<lparr>u_transaction_id = 7, u_receipt_id = 1, u_match_confidence = 105,
       u_match_status = auto_matched, u_user_confirmed = False\<rparr>]"
    by (simp add: autoMatchAll_def map_filter_simps confidenceThreshold_def truthy_num_def 4 5)
  with 1 2 3 show ?thesis
    by simp
qed

section \<open>Properties of the field-extraction pipeline\<close>

subsection \<open>Amounts\<close>

lemma multiLinePair_pos: "multiLinePair cur nxt = Some a \<Longrightarrow> 0 < a"
  by (auto simp: multiLinePair_def validAmount_def Let_def split: if_splits option.splits)

lemma multiLineTotal_pos: "multiLineTotal ls = Some a \<Longrightarrow> 0 < a"
  by (induction ls rule: multiLineTotal.induct)
     (auto simp: multiLinePair_pos split: option.splits)

text \<open>The first pair of lines that is a valid multi-line total decides the loop.\<close>

lemma multiLineTotal_first_pair:
  assumes "multiLineTotal (pre @ [cur]) = None" and "multiLinePair cur nxt = Some a"
  shows "multiLineTotal (pre @ cur # nxt # post) = Some a"
  using assms
proof (induction pre)
  case Nil
  then show ?case by simp
next
  case (Cons p pre)
  show ?case
  proof (cases pre)
    case Nil
    with Cons.prems show ?thesis
      by (simp split: option.splits)
  next
    case (Cons q qs)
    with Cons.prems Cons.IH show ?thesis
      by (simp split: option.splits)
  qed
qed

text \<open>
  Once the multi-line strategy has found an amount, no later strategy changes the total:
  the plain-total strategy and the four fallbacks run only while the total is unset, the
  others write other fields.
\<close>

lemma total_kept:
  assumes "total b = Some a" and "0 < a"
  shows "total (strategyBilling t (strategyBalance t (strategyStandalone t (strategyCurrency t
           (strategyTax t (strategySubtotal t (strategyTotal t (strategyGrandTotal t b)))))))) = Some a"
proof -
  have g: "total (strategyGrandTotal t b) = Some a"
    using assms by (simp add: strategyGrandTotal_def split: option.splits)
  have "strategyTotal t (strategyGrandTotal t b) = strategyGrandTotal t b"
    using g assms(2) by (simp add: strategyTotal_def Let_def truthy_num_def)
  then have s: "total (strategyTax t (strategySubtotal t (strategyTotal t (strategyGrandTotal t b)))) = Some a"
    using g by (simp add: strategyTax_def strategySubtotal_def split: option.splits)
  have keep: "\<not> noTotal c" if "total c = Some a" for c
    using that assms(2) by (simp add: noTotal_def truthy_num_def)
  show ?thesis
    using s keep
    by (simp add: strategyBilling_def strategyBalance_def strategyStandalone_def
          strategyCurrency_def)
qed

lemma total_after_multiLine:
  assumes "multiLineTotal (split_lines t) = Some a"
  shows "total (strategyMultiLine t b) = Some a \<and> total (extractAmounts t) = Some a"
proof -
  have m: "total (strategyMultiLine t b) = Some a" for b
    using assms by (simp add: strategyMultiLine_def)
  have "0 < a"
    using assms by (rule multiLineTotal_pos)
  with m show ?thesis
    unfolding extractAmounts_def by (simp add: total_kept)
qed

lemma mainAmount_total:
  "total b = Some a \<Longrightarrow> 0 < a \<Longrightarrow>
   mainAmount b = (if truthy_num (grandTotal b) then grandTotal b else Some a)"
  by (simp add: mainAmount_def truthy_num_def)

text \<open>
  C7, as amended: a text that starts with the line Total followed by the line $4,763.00
  gets 4763.00 as its total, whatever follows and whatever total the payment strategies
  had set before; the extracted amount is 4763.00 unless a grand-total label was found.
  The same holds with lines in front of the block when no pair of lines before it forms a
  multi-line total of its own: the loop ends at the first such pair.  With the flat label
  TOTAL: 12.50 after the block the result is 4763.00, while the flat label alone gives
  12.50.
\<close>

theorem multi_line_total_wins:
  "total (extractAmounts (''Total\<newline>$4,763.00\<newline>'' @ rest)) = Some 4763 \<and>
   total (strategyMultiLine (''Total\<newline>$4,763.00\<newline>'' @ rest) b) = Some 4763 \<and>
   mainAmount (extractAmounts (''Total\<newline>$4,763.00\<newline>'' @ rest)) =
     (if truthy_num (grandTotal (extractAmounts (''Total\<newline>$4,763.00\<newline>'' @ rest)))
      then grandTotal (extractAmounts (''Total\<newline>$4,763.00\<newline>'' @ rest))
      else Some 4763) \<and>
   (split_lines t = pre @ ''Total'' # ''$4,763.00'' # post \<and>
    multiLineTotal (pre @ [''Total'']) = None \<longrightarrow>
      total (extractAmounts t) = Some 4763 \<and> total (strategyMultiLine t b) = Some 4763) \<and>
   extractAmounts ''Total\<newline>$4,763.00\<newline>TOTAL: 12.50'' =
     \<lparr>subtotal = None, tax = None, total = Some 4763, grandTotal = None\<rparr> \<and>
   mainAmount (extractAmounts ''Total\<newline>$4,763.00\<newline>TOTAL: 12.50'') = Some 4763 \<and>
   total (extractAmounts ''TOTAL: 12.50'') = Some (25 / 2)"
proof -
  have pair: "multiLinePair ''Total'' ''$4,763.00'' = Some 4763"
    by code_simp
  have lines: "split_lines (''Total\<newline>$4,763.00\<newline>'' @ rest) =
               ''Total'' # ''$4,763.00'' # split_lines rest"
    by (simp add: split_lines_def)
  have "multiLineTotal (split_lines (''Total\<newline>$4,763.00\<newline>'' @ rest)) = Some 4763"
    unfolding lines by (simp add: pair)
  note start = total_after_multiLine[OF this]
  have main: "mainAmount (extractAmounts (''Total\<newline>$4,763.00\<newline>'' @ rest)) =
     (if truthy_num (grandTotal (extractAmounts (''Total\<newline>$4,763.00\<newline>'' @ rest)))
      then grandTotal (extractAmounts (''Total\<newline>$4,763.00\<newline>'' @ rest))
      else Some 4763)"
    using start by (intro mainAmount_total) simp_all
  have anywhere: "total (extractAmounts t) = Some 4763 \<and> total (strategyMultiLine t b) = Some 4763"
    if "split_lines t = pre @ ''Total'' # ''$4,763.00'' # post"
      and "multiLineTotal (pre @ [''Total'']) = None"
  proof -
    have "multiLineTotal (split_lines t) = Some 4763"
      unfolding that(1) using that(2) pair by (rule multiLineTotal_first_pair)
    from total_after_multiLine[OF this] show ?thesis by simp
  qed
  have both: "extractAmounts ''Total\<newline>$4,763.00\<newline>TOTAL: 12.50'' =
     \<lparr>subtotal = None, tax = None, total = Some 4763, grandTotal = None\<rparr>"
    by code_simp
  have flat: "total (extractAmounts ''TOTAL: 12.50'') = Some (25 / 2)"
    by code_simp
  have "mainAmount (extractAmounts ''Total\<newline>$4,763.00\<newline>TOTAL: 12.50'') = Some 4763"
    unfolding both by (simp add: mainAmount_def truthy_num_def)
  with start main anywhere both flat show ?thesis
    by blast
qed

theorem multi_line_total_wins_witness:
  "total (extractAmounts ''Payment 10.00\<newline>Total\<newline>$4,763.00\<newline>'') = Some 4763 \<and>
   total (strategyUsd ''Payment 10.00\<newline>Total\<newline>$4,763.00\<newline>''
           (strategyPayment ''Payment 10.00\<newline>Total\<newline>$4,763.00\<newline>'' emptyBreakdown)) = Some 10"
proof -
  have l: "split_lines ''Payment 10.00\<newline>Total\<newline>$4,763.00\<newline>'' =
           [''Payment 10.00''] @ ''Total'' # ''$4,763.00'' # [[]]"
    by (simp add: split_lines_def)
  have n: "multiLineTotal ([''Payment 10.00''] @ [''Total'']) = None"
    by code_simp
  have p: "total (strategyUsd ''Payment 10.00\<newline>Total\<newline>$4,763.00\<newline>''
           (strategyPayment ''Payment 10.00\<newline>Total\<newline>$4,763.00\<newline>'' emptyBreakdown)) = Some 10"
    by code_simp
  show ?thesis
    using multi_line_total_wins[of _ _ "''Payment 10.00\<newline>Total\<newline>$4,763.00\<newline>''"
        "[''Payment 10.00'']" "[[]]"] l n p
    by simp
qed

text \<open>
  The claim as it was stated, for every text that contains the block, fails when an
  earlier pair of lines is a multi-line total: the loop stops there and the total is 5.
\<close>

theorem multi_line_total_counterexample:
  "total (extractAmounts
     ''Total\<newline>$5.00\<newline>Total\<newline>$4,763.00\<newline>TOTAL: 12.50'') = Some 5 \<and>
   mainAmount (extractAmounts
     ''Total\<newline>$5.00\<newline>Total\<newline>$4,763.00\<newline>TOTAL: 12.50'') = Some 5"
  by code_simp

text \<open>
  The conversion of \<open>parseFloat\<close> rounds: a digit string a little below 50000 becomes 50000
  and fails the sanity test.
\<close>

lemma parseAmount_rounds:
  "parseAmount ''49999.999999999999'' = Some 50000 \<and>
   \<not> validAmount (parseAmount ''49999.999999999999'')"
  by code_simp

subsection \<open>Dates\<close>

text \<open>
  C8: for the text Date paidJuly 22, 2025 the extracted date is 07/22/2025, given that the
  runtime reads July 22, 2025 as that day and reads paidJuly 22, 2025, the written date the
  three label strategies find, as no date (or as the same day).  A written date that does
  not convert is skipped and the search goes on with the next match.
\<close>

theorem date_paid_concatenated:
  "(newDate ''July 22, 2025'' = Some (2025, 6, 22) \<and>
    (newDate ''paidJuly 22, 2025'' = None \<or> newDate ''paidJuly 22, 2025'' = Some (2025, 6, 22))
      \<longrightarrow> extractDate newDate ''Date paidJuly 22, 2025'' = Some ''07/22/2025'') \<and>
   (match_first numericDate m = None \<and> match_first writtenDate m = Some w \<and> newDate w = None
      \<longrightarrow> dateOfMatches newDate (m # ms) = dateOfMatches newDate ms) \<and>
   match_first writtenDate ''Date paidJuly 22, 2025'' = Some ''paidJuly 22, 2025''"
proof -
  have all: "map (\<lambda>dateRegex. match_all dateRegex ''Date paidJuly 22, 2025'') dateStrategies =
    [[''Date paidJuly 22, 2025''], [''Date paidJuly 22, 2025''], [''Date paidJuly 22, 2025''],
     [], [], [], [''July 22, 2025'']]"
    by code_simp
  have n1: "match_first numericDate ''Date paidJuly 22, 2025'' = None"
    by code_simp
  have w1: "match_first writtenDate ''Date paidJuly 22, 2025'' = Some ''paidJuly 22, 2025''"
    by code_simp
  have n2: "match_first numericDate ''July 22, 2025'' = None"
    by code_simp
  have w2: "match_first writtenDate ''July 22, 2025'' = Some ''July 22, 2025''"
    by code_simp
  have pad: "padStart2 (show_nat 7) = ''07''" "padStart2 (show_nat 22) = ''22''"
      "show_nat 2025 = ''2025''"
    by code_simp+
  have "extractDate newDate ''Date paidJuly 22, 2025'' = Some ''07/22/2025''"
    if "newDate ''July 22, 2025'' = Some (2025, 6, 22)"
      and "newDate ''paidJuly 22, 2025'' = None \<or> newDate ''paidJuly 22, 2025'' = Some (2025, 6, 22)"
    using that unfolding extractDate_def all
    by (auto simp: n1 w1 n2 w2 pad convertWritten_def)
  moreover have "dateOfMatches newDate (m # ms) = dateOfMatches newDate ms"
    if "match_first numericDate m = None" "match_first writtenDate m = Some w" "newDate w = None"
    using that by (simp add: convertWritten_def)
  ultimately show ?thesis
    using w1 by blast
qed

theorem date_paid_concatenated_witness:
  "extractDate julyOnly ''Date paidJuly 22, 2025'' = Some ''07/22/2025'' \<and>
   julyOnly ''paidJuly 22, 2025'' = None"
  using date_paid_concatenated[of julyOnly]
  by (simp add: julyOnly_def)

subsection \<open>A PDF without a text layer\<close>

text \<open>
  C6: a PDF whose text, trimmed, has fewer than 10 characters does not fail, and its
  amount and date are null; but the sentence the function puts in place of the text passes
  the header heuristic of the merchant extraction (a capital followed by a lower-case
  letter, no excluded word), so the merchant is that sentence and not null.  An image
  with empty text gives null for all three fields.
\<close>

theorem minimal_pdf_text_merchant:
  "(length (trim raw) < 10 \<longrightarrow>
      processReceiptOCR newDate PDF (Inr raw) =
        Inr \<lparr>ocr_text = ''No extractable text found in PDF'',
              extractedAmount = None, extractedDate = None,
              extractedMerchant = Some ''No extractable text found in PDF'',
              breakdown = \<lparr>subtotal = None, tax = None, total = None, grandTotal = None\<rparr>\<rparr>) \<and>
   processReceiptOCR newDate Image (Inr []) =
     Inr \<lparr>ocr_text = [], extractedAmount = None, extractedDate = None,
           extractedMerchant = None,
           breakdown = \<lparr>subtotal = None, tax = None, total = None, grandTotal = None\<rparr>\<rparr>"
proof -
  have a: "extractAmounts ''No extractable text found in PDF'' =
           \<lparr>subtotal = None, tax = None, total = None, grandTotal = None\<rparr>"
    by code_simp
  have d: "map (\<lambda>dateRegex. match_all dateRegex ''No extractable text found in PDF'') dateStrategies =
           [[], [], [], [], [], [], []]"
    by code_simp
  have m: "extractMerchant ''No extractable text found in PDF'' =
           Some ''No extractable text found in PDF''"
    by code_simp
  have a0: "extractAmounts [] = \<lparr>subtotal = None, tax = None, total = None, grandTotal = None\<rparr>"
    by code_simp
  have d0: "map (\<lambda>dateRegex. match_all dateRegex []) dateStrategies = [[], [], [], [], [], [], []]"
    by code_simp
  have m0: "extractMerchant [] = None"
    by code_simp
  have pdf: "processReceiptOCR newDate PDF (Inr raw) =
        Inr \<lparr>ocr_text = ''No extractable text found in PDF'',
              extractedAmount = None, extractedDate = None,
              extractedMerchant = Some ''No extractable text found in PDF'',
              breakdown = \<lparr>subtotal = None, tax = None, total = None, grandTotal = None\<rparr>\<rparr>"
    if "length (trim raw) < 10"
    using that
    by (simp add: processReceiptOCR_def Let_def a m extractDate_def d mainAmount_def truthy_num_def)
  have "processReceiptOCR newDate Image (Inr []) =
     Inr \<lparr>ocr_text = [], extractedAmount = None, extractedDate = None,
           extractedMerchant = None,
           breakdown = \<lparr>subtotal = None, tax = None, total = None, grandTotal = None\<rparr>\<rparr>"
    by (simp add: processReceiptOCR_def Let_def a0 m0 extractDate_def d0 mainAmount_def
          truthy_num_def)
  with pdf show ?thesis
    by blast
qed

theorem minimal_pdf_text_merchant_witness:
  "extractedMerchant (projr (processReceiptOCR julyOnly PDF (Inr ''  ''))) =
     Some ''No extractable text found in PDF'' \<and>
   extractedAmount (projr (processReceiptOCR julyOnly PDF (Inr ''  ''))) = None \<and>
   extractedDate (projr (processReceiptOCR julyOnly PDF (Inr ''  ''))) = None"
proof -
  have "length (trim ''  '') < 10"
    by code_simp
  with minimal_pdf_text_merchant[of "''  ''" julyOnly] show ?thesis
    by simp
qed

end
